theory Spec2Isabelle
  imports Complex_Main
begin

section \<open>SimpleColorKeyer: the per-pixel alpha computation\<close>

text \<open>
  This theory embeds the alpha computation of \<^verbatim>\<open>SimpleColorKeyer.cpp\<close>: the struct
  \<^verbatim>\<open>Color3\<close>, the knob fields of \<^verbatim>\<open>SimpleColorKeyerIop\<close>, the four keying methods
  with their dispatcher \<^verbatim>\<open>calculate_alpha\<close>, and the gain, clamp and invert steps that
  the body of the pixel loop of \<^verbatim>\<open>engine\<close> applies to the result.

  Numbers. The source computes in C++ \<^verbatim>\<open>float\<close>. Here a \<^verbatim>\<open>float\<close> is a real number and
  the arithmetic is exact: rounding, overflow, infinities and NaN are not modelled, and
  a literal such as \<^verbatim>\<open>0.1f\<close> is the real number one tenth. Every statement below is a
  statement about this exact arithmetic.

  Division. A \<^verbatim>\<open>float\<close> division by zero does not trap in C++; it yields an infinity or
  a NaN, values that are no real numbers. HOL's own \<open>x / 0 = 0\<close> would hide that, so a
  division whose divisor is not a literal goes through \<open>fdiv\<close>, and a function that
  divides returns \<open>real option\<close>: \<open>None\<close> says that a divisor was zero and the result of
  the source lies outside the model.
\<close>

subsection \<open>Color3\<close>

record Color3 =
  r :: real
  g :: real
  b :: real

definition distance_to :: "Color3 \<Rightarrow> Color3 \<Rightarrow> real" where
  "distance_to c other =
     (let dr = r c - r other;
          dg = g c - g other;
          db = b c - b other
      in sqrt (dr * dr + dg * dg + db * db))"

subsection \<open>The knobs of the node\<close>

text \<open>
  The private fields of \<^verbatim>\<open>SimpleColorKeyerIop\<close>, without the trailing underscore of the
  source names. \<^verbatim>\<open>key_color_\<close> is a \<^verbatim>\<open>float[3]\<close> that \<^verbatim>\<open>engine\<close> turns into a
  \<^verbatim>\<open>Color3\<close> before the loop; \<^verbatim>\<open>keying_method_\<close> is an \<^verbatim>\<open>int\<close>, and nothing in the
  source restricts it to the four values its comment lists.
\<close>

record SimpleColorKeyerIop =
  key_color :: Color3
  variance :: real
  range_red :: real
  range_magenta :: real
  range_green :: real
  range_yellow :: real
  range_blue :: real
  range_cyan :: real
  gain :: real
  invert :: bool
  keying_method :: int

subsection \<open>Division\<close>

definition fdiv :: "real \<Rightarrow> real \<Rightarrow> real option" where
  "fdiv x y = (if y = 0 then None else Some (x / y))"

subsection \<open>Distance method\<close>

text \<open>
  \<^verbatim>\<open>calculate_distance_alpha\<close>, in two parts. \<open>effective_tolerance\<close> is the value
  of the local variable \<^verbatim>\<open>effective_tolerance\<close> when the division is reached: the
  six matches, the start at \<^verbatim>\<open>variance_\<close>, the six updates guarded by
  \<^verbatim>\<open>range > 0.0f\<close>, the six guarded by \<^verbatim>\<open>range < 0.0f\<close>, in the order of the source,
  and the final \<^verbatim>\<open>std::max(0.001f, effective_tolerance)\<close>. Each \<open>t\<close> of the chain
  shadows the one before it, as \<^verbatim>\<open>+=\<close> overwrites the variable.
\<close>

definition effective_tolerance :: "SimpleColorKeyerIop \<Rightarrow> Color3 \<Rightarrow> real" where
  "effective_tolerance this pixel =
     (let red_match = r pixel;
          green_match = g pixel;
          blue_match = b pixel;
          yellow_match = min (r pixel) (g pixel);
          magenta_match = min (r pixel) (b pixel);
          cyan_match = min (g pixel) (b pixel);
          t = variance this;
          t = (if range_red this > 0 then t + range_red this * 0.1 * red_match else t);
          t = (if range_green this > 0 then t + range_green this * 0.1 * green_match else t);
          t = (if range_blue this > 0 then t + range_blue this * 0.1 * blue_match else t);
          t = (if range_yellow this > 0 then t + range_yellow this * 0.1 * yellow_match else t);
          t = (if range_magenta this > 0 then t + range_magenta this * 0.1 * magenta_match else t);
          t = (if range_cyan this > 0 then t + range_cyan this * 0.1 * cyan_match else t);
          t = (if range_red this < 0 then t + range_red this * 0.1 * red_match else t);
          t = (if range_green this < 0 then t + range_green this * 0.1 * green_match else t);
          t = (if range_blue this < 0 then t + range_blue this * 0.1 * blue_match else t);
          t = (if range_yellow this < 0 then t + range_yellow this * 0.1 * yellow_match else t);
          t = (if range_magenta this < 0 then t + range_magenta this * 0.1 * magenta_match else t);
          t = (if range_cyan this < 0 then t + range_cyan this * 0.1 * cyan_match else t)
      in max 0.001 t)"

definition calculate_distance_alpha ::
  "SimpleColorKeyerIop \<Rightarrow> Color3 \<Rightarrow> Color3 \<Rightarrow> real option" where
  "calculate_distance_alpha this pixel key =
     (let base_distance = distance_to pixel key
      in case fdiv base_distance (effective_tolerance this pixel) of
           None \<Rightarrow> None
         | Some normalized_distance \<Rightarrow> Some (max 0 (1 - normalized_distance)))"

subsection \<open>Chroma method\<close>

definition calculate_chroma_alpha ::
  "SimpleColorKeyerIop \<Rightarrow> Color3 \<Rightarrow> Color3 \<Rightarrow> real option" where
  "calculate_chroma_alpha this pixel key =
     (let pixel_u = r pixel - g pixel;
          pixel_v = b pixel - g pixel;
          key_u = r key - g key;
          key_v = b key - g key;
          chroma_distance = sqrt ((pixel_u - key_u) * (pixel_u - key_u) +
                                  (pixel_v - key_v) * (pixel_v - key_v))
      in case fdiv chroma_distance (variance this) of
           None \<Rightarrow> None
         | Some normalized_distance \<Rightarrow> Some (max 0 (1 - normalized_distance)))"

subsection \<open>Luma-weighted method\<close>

text \<open>The divisor of \<^verbatim>\<open>luma_diff / 0.5f\<close> is a literal, so this division is plain.\<close>

definition calculate_luma_weighted_alpha ::
  "SimpleColorKeyerIop \<Rightarrow> Color3 \<Rightarrow> Color3 \<Rightarrow> real option" where
  "calculate_luma_weighted_alpha this pixel key =
     (let pixel_luma = 0.299 * r pixel + 0.587 * g pixel + 0.114 * b pixel;
          key_luma = 0.299 * r key + 0.587 * g key + 0.114 * b key;
          luma_diff = \<bar>pixel_luma - key_luma\<bar>;
          luma_weight = 1 - min 1 (luma_diff / 0.5)
      in case calculate_distance_alpha this pixel key of
           None \<Rightarrow> None
         | Some color_alpha \<Rightarrow> Some (color_alpha * luma_weight))"

subsection \<open>Adaptive method\<close>

definition calculate_adaptive_alpha ::
  "SimpleColorKeyerIop \<Rightarrow> Color3 \<Rightarrow> Color3 \<Rightarrow> real option" where
  "calculate_adaptive_alpha this pixel key =
     (case calculate_distance_alpha this pixel key of
        None \<Rightarrow> None
      | Some distance_alpha \<Rightarrow>
          (case calculate_chroma_alpha this pixel key of
             None \<Rightarrow> None
           | Some chroma_alpha \<Rightarrow>
               (let key_saturation =
                      max (r key) (max (g key) (b key)) - min (r key) (min (g key) (b key))
                in if key_saturation > 0.5
                   then Some (0.3 * distance_alpha + 0.7 * chroma_alpha)
                   else Some (0.7 * distance_alpha + 0.3 * chroma_alpha))))"

subsection \<open>Dispatch on the keying method\<close>

text \<open>
  The \<^verbatim>\<open>switch\<close> of \<^verbatim>\<open>calculate_alpha\<close> has the cases 0 to 3 and no \<^verbatim>\<open>default\<close>; for
  any other selector the local \<^verbatim>\<open>alpha\<close> keeps its initial value \<^verbatim>\<open>0.0f\<close>.
\<close>

definition calculate_alpha ::
  "SimpleColorKeyerIop \<Rightarrow> Color3 \<Rightarrow> Color3 \<Rightarrow> real option" where
  "calculate_alpha this pixel key =
     (if keying_method this = 0 then calculate_distance_alpha this pixel key
      else if keying_method this = 1 then calculate_chroma_alpha this pixel key
      else if keying_method this = 2 then calculate_luma_weighted_alpha this pixel key
      else if keying_method this = 3 then calculate_adaptive_alpha this pixel key
      else Some 0)"

subsection \<open>Gain, clamp and invert in the pixel loop\<close>

text \<open>
  \<open>finalize\<close> is the part of the loop body of \<^verbatim>\<open>engine\<close> between the call of
  \<^verbatim>\<open>calculate_alpha\<close> and the write to the alpha channel: the three assignments to
  \<^verbatim>\<open>alpha\<close>. \<open>engine_alpha\<close> is the value written to \<^verbatim>\<open>Chan_Alpha\<close> for one pixel,
  with the key built from \<^verbatim>\<open>key_color_\<close>.
\<close>

definition finalize :: "SimpleColorKeyerIop \<Rightarrow> real \<Rightarrow> real" where
  "finalize this raw_alpha =
     (let alpha = raw_alpha * gain this;
          alpha = max 0 (min 1 alpha)
      in if invert this then 1 - alpha else alpha)"

definition engine_alpha :: "SimpleColorKeyerIop \<Rightarrow> Color3 \<Rightarrow> real option" where
  "engine_alpha this pixel_color =
     (case calculate_alpha this pixel_color (key_color this) of
        None \<Rightarrow> None
      | Some alpha \<Rightarrow> Some (finalize this alpha))"

subsection \<open>The constructor\<close>

text \<open>
  The values the constructor \<^verbatim>\<open>SimpleColorKeyerIop(Node*)\<close> gives the knobs: a green
  key, a tolerance of 0.3, no directional expansion, gain 1, no inversion, the distance
  method.
\<close>

definition new_SimpleColorKeyerIop :: SimpleColorKeyerIop where
  "new_SimpleColorKeyerIop =
     \<lparr>key_color = \<lparr>r = 0, g = 1, b = 0\<rparr>,
      variance = 0.3,
      range_red = 0,
      range_magenta = 0,
      range_green = 0,
      range_yellow = 0,
      range_blue = 0,
      range_cyan = 0,
      gain = 1,
      invert = False,
      keying_method = 0\<rparr>"

section \<open>Auxiliary facts\<close>

lemma distance_to_nonneg: "0 \<le> distance_to c other"
  by (simp add: distance_to_def Let_def)

text \<open>
  The two guarded updates of one direction add its positive part and its negative part;
  together they add the range itself, whatever its sign.
\<close>

lemma step_pos: "(if 0 < x then t + x * k * m else t) = t + max x 0 * k * m" for x :: real
  by (simp add: max_def)

lemma step_neg: "(if x < 0 then t + x * k * m else t) = t + min x 0 * k * m" for x :: real
  by (simp add: min_def)

lemma pos_neg_part: "max x 0 * k * m + min x 0 * k * m = x * k * m" for x :: real
  by (simp add: max_def min_def)

lemma effective_tolerance_closed:
  "effective_tolerance this pixel =
     max 0.001 (variance this
       + range_red this * 0.1 * r pixel
       + range_green this * 0.1 * g pixel
       + range_blue this * 0.1 * b pixel
       + range_yellow this * 0.1 * min (r pixel) (g pixel)
       + range_magenta this * 0.1 * min (r pixel) (b pixel)
       + range_cyan this * 0.1 * min (g pixel) (b pixel))"
proof -
  have unfolded: "effective_tolerance this pixel =
     max 0.001 (variance this
       + max (range_red this) 0 * 0.1 * r pixel
       + max (range_green this) 0 * 0.1 * g pixel
       + max (range_blue this) 0 * 0.1 * b pixel
       + max (range_yellow this) 0 * 0.1 * min (r pixel) (g pixel)
       + max (range_magenta this) 0 * 0.1 * min (r pixel) (b pixel)
       + max (range_cyan this) 0 * 0.1 * min (g pixel) (b pixel)
       + min (range_red this) 0 * 0.1 * r pixel
       + min (range_green this) 0 * 0.1 * g pixel
       + min (range_blue this) 0 * 0.1 * b pixel
       + min (range_yellow this) 0 * 0.1 * min (r pixel) (g pixel)
       + min (range_magenta this) 0 * 0.1 * min (r pixel) (b pixel)
       + min (range_cyan this) 0 * 0.1 * min (g pixel) (b pixel))"
    unfolding effective_tolerance_def step_pos step_neg Let_def ..
  show ?thesis
    unfolding unfolded
    using pos_neg_part [of "range_red this" "0.1" "r pixel"]
      pos_neg_part [of "range_green this" "0.1" "g pixel"]
      pos_neg_part [of "range_blue this" "0.1" "b pixel"]
      pos_neg_part [of "range_yellow this" "0.1" "min (r pixel) (g pixel)"]
      pos_neg_part [of "range_magenta this" "0.1" "min (r pixel) (b pixel)"]
      pos_neg_part [of "range_cyan this" "0.1" "min (g pixel) (b pixel)"]
    by (intro arg_cong [where f = "max 0.001"]) linarith
qed

lemma effective_tolerance_floor: "0.001 \<le> effective_tolerance this pixel"
  unfolding effective_tolerance_closed by (rule max.cobounded1)

lemma effective_tolerance_pos: "0 < effective_tolerance this pixel"
  using effective_tolerance_floor [of this pixel] by simp

lemma distance_to_squares:
  "distance_to c other =
     sqrt ((r c - r other)\<^sup>2 + (g c - g other)\<^sup>2 + (b c - b other)\<^sup>2)"
  by (simp add: distance_to_def Let_def power2_eq_square)

lemma calculate_distance_alpha_Some:
  "calculate_distance_alpha this pixel key =
     Some (max 0 (1 - distance_to pixel key / effective_tolerance this pixel))"
  using effective_tolerance_pos [of this pixel]
  by (simp add: calculate_distance_alpha_def fdiv_def Let_def)

lemma chroma_distance_closed:
  "calculate_chroma_alpha this pixel key =
     (if variance this = 0 then None
      else Some (max 0 (1 -
        sqrt (((r pixel - g pixel) - (r key - g key))\<^sup>2 +
              ((b pixel - g pixel) - (b key - g key))\<^sup>2) / variance this)))"
  by (simp add: calculate_chroma_alpha_def fdiv_def Let_def power2_eq_square)


text \<open>The linear falloff stays in the unit interval and grows with the tolerance.\<close>

lemma unit_falloff: "0 \<le> q \<Longrightarrow> 0 \<le> max 0 (1 - q) \<and> max 0 (1 - q) \<le> 1" for q :: real
  by simp

lemma falloff_mono:
  fixes d t1 t2 :: real
  assumes "0 \<le> d" "0 < t1" "t1 \<le> t2"
  shows "max 0 (1 - d / t1) \<le> max 0 (1 - d / t2)"
proof -
  have "d / t2 \<le> d / t1"
    using assms by (simp add: frac_le)
  then show ?thesis by simp
qed

lemma distance_alpha_unit:
  "\<exists>a. calculate_distance_alpha this pixel key = Some a \<and> 0 \<le> a \<and> a \<le> 1"
proof -
  have "0 \<le> distance_to pixel key / effective_tolerance this pixel"
    using distance_to_nonneg [of pixel key] effective_tolerance_pos [of this pixel] by simp
  then show ?thesis
    unfolding calculate_distance_alpha_Some using unit_falloff by blast
qed

lemma chroma_alpha_unit:
  assumes "0 < variance this"
  shows "\<exists>a. calculate_chroma_alpha this pixel key = Some a \<and> 0 \<le> a \<and> a \<le> 1"
proof -
  let ?d = "sqrt (((r pixel - g pixel) - (r key - g key))\<^sup>2 +
              ((b pixel - g pixel) - (b key - g key))\<^sup>2)"
  have "0 \<le> ?d / variance this"
    using assms by simp
  then have "0 \<le> max 0 (1 - ?d / variance this) \<and> max 0 (1 - ?d / variance this) \<le> 1"
    by (rule unit_falloff)
  moreover have "calculate_chroma_alpha this pixel key = Some (max 0 (1 - ?d / variance this))"
    using assms by (simp add: chroma_distance_closed)
  ultimately show ?thesis by blast
qed

lemma luma_weight_unit:
  "0 \<le> 1 - min 1 (\<bar>x\<bar> / 0.5) \<and> 1 - min 1 (\<bar>x\<bar> / 0.5) \<le> 1" for x :: real
  by simp

lemma luma_weighted_closed:
  "calculate_luma_weighted_alpha this pixel key =
     map_option (\<lambda>color_alpha. color_alpha *
        (1 - min 1 (\<bar>(0.299 * r pixel + 0.587 * g pixel + 0.114 * b pixel) -
                     (0.299 * r key + 0.587 * g key + 0.114 * b key)\<bar> / 0.5)))
       (calculate_distance_alpha this pixel key)"
  by (simp add: calculate_luma_weighted_alpha_def Let_def split: option.split)

lemma luma_weighted_alpha_unit:
  "\<exists>a. calculate_luma_weighted_alpha this pixel key = Some a \<and> 0 \<le> a \<and> a \<le> 1"
proof -
  obtain d where d: "calculate_distance_alpha this pixel key = Some d" "0 \<le> d" "d \<le> 1"
    using distance_alpha_unit by blast
  define w where "w = 1 - min 1 (\<bar>(0.299 * r pixel + 0.587 * g pixel + 0.114 * b pixel) -
                     (0.299 * r key + 0.587 * g key + 0.114 * b key)\<bar> / 0.5)"
  have w: "0 \<le> w" "w \<le> 1"
    unfolding w_def using luma_weight_unit by blast+
  have "calculate_luma_weighted_alpha this pixel key = Some (d * w)"
    unfolding luma_weighted_closed d w_def by simp
  moreover have "0 \<le> d * w"
    using d w by simp
  moreover have "d * w \<le> 1"
    using d w by (simp add: mult_le_one)
  ultimately show ?thesis by blast
qed

lemma adaptive_closed:
  "calculate_adaptive_alpha this pixel key =
     Option.bind (calculate_distance_alpha this pixel key) (\<lambda>distance_alpha.
       map_option (\<lambda>chroma_alpha.
           if max (r key) (max (g key) (b key)) - min (r key) (min (g key) (b key)) > 0.5
           then 0.3 * distance_alpha + 0.7 * chroma_alpha
           else 0.7 * distance_alpha + 0.3 * chroma_alpha)
         (calculate_chroma_alpha this pixel key))"
  by (simp add: calculate_adaptive_alpha_def Let_def split: option.split)

lemma blend_unit:
  "0 \<le> x \<Longrightarrow> x \<le> 1 \<Longrightarrow> 0 \<le> y \<Longrightarrow> y \<le> 1 \<Longrightarrow>
     0 \<le> 0.3 * x + 0.7 * y \<and> 0.3 * x + 0.7 * y \<le> 1 \<and>
     0 \<le> 0.7 * x + 0.3 * y \<and> 0.7 * x + 0.3 * y \<le> 1" for x y :: real
  by simp

lemma adaptive_alpha_unit:
  assumes "0 < variance this"
  shows "\<exists>a. calculate_adaptive_alpha this pixel key = Some a \<and> 0 \<le> a \<and> a \<le> 1"
proof -
  obtain d where d: "calculate_distance_alpha this pixel key = Some d" "0 \<le> d" "d \<le> 1"
    using distance_alpha_unit by blast
  obtain c where c: "calculate_chroma_alpha this pixel key = Some c" "0 \<le> c" "c \<le> 1"
    using chroma_alpha_unit [OF assms] by blast
  show ?thesis
    unfolding adaptive_closed d c using blend_unit [OF d(2,3) c(2,3)] by simp
qed

section \<open>Worked examples\<close>

text \<open>
  The model run on concrete inputs, with the knobs as the constructor leaves them unless
  a field is set. A pixel equal to the green key has distance alpha 1; white lies at
  distance \<open>sqrt 2\<close> of the key, beyond the tolerance 0.3, and has alpha 0.
\<close>

lemma example_pixel_is_key:
  "calculate_distance_alpha new_SimpleColorKeyerIop
     \<lparr>r = 0, g = 1, b = 0\<rparr> \<lparr>r = 0, g = 1, b = 0\<rparr> = Some 1"
  by (simp add: calculate_distance_alpha_Some distance_to_squares)

lemma example_white:
  "calculate_distance_alpha new_SimpleColorKeyerIop
     \<lparr>r = 1, g = 1, b = 1\<rparr> \<lparr>r = 0, g = 1, b = 0\<rparr> = Some 0"
proof -
  have "1 \<le> sqrt 2" by simp
  then have "3 \<le> sqrt 2 * 10" by linarith
  then show ?thesis
    by (simp add: calculate_distance_alpha_Some distance_to_squares
        effective_tolerance_closed new_SimpleColorKeyerIop_def)
qed

text \<open>
  With a yellow range of 3, pure yellow has the tolerance 0.3 + 3 * 0.1 * 1 = 0.6 and,
  at distance 1 of the key, still alpha 0. The tolerance is computed here by running the
  twelve updates, not by the closed form.
\<close>

lemma example_yellow_tolerance:
  "effective_tolerance (new_SimpleColorKeyerIop\<lparr>range_yellow := 3\<rparr>)
     \<lparr>r = 1, g = 1, b = 0\<rparr> = 0.6"
  by (simp add: effective_tolerance_def new_SimpleColorKeyerIop_def Let_def)

lemma example_yellow_alpha:
  "calculate_distance_alpha (new_SimpleColorKeyerIop\<lparr>range_yellow := 3\<rparr>)
     \<lparr>r = 1, g = 1, b = 0\<rparr> \<lparr>r = 0, g = 1, b = 0\<rparr> = Some 0"
  by (simp add: calculate_distance_alpha_Some distance_to_squares
      effective_tolerance_closed new_SimpleColorKeyerIop_def)

text \<open>
  A variance of zero: the distance method divides by the floor 0.001, the chroma method
  by zero. A negative variance: the chroma method divides by it and leaves the unit
  interval.
\<close>

lemma example_zero_variance:
  "calculate_distance_alpha (new_SimpleColorKeyerIop\<lparr>variance := 0\<rparr>)
     \<lparr>r = 0, g = 1, b = 0\<rparr> \<lparr>r = 0, g = 1, b = 0\<rparr> = Some 1 \<and>
   calculate_chroma_alpha (new_SimpleColorKeyerIop\<lparr>variance := 0\<rparr>)
     \<lparr>r = 0, g = 1, b = 0\<rparr> \<lparr>r = 0, g = 1, b = 0\<rparr> = None"
  by (simp add: calculate_distance_alpha_Some distance_to_squares chroma_distance_closed)

lemma example_negative_variance:
  "calculate_chroma_alpha (new_SimpleColorKeyerIop\<lparr>variance := - 1\<rparr>)
     \<lparr>r = 1, g = 1, b = 0\<rparr> \<lparr>r = 0, g = 1, b = 0\<rparr> = Some 2"
  by (simp add: chroma_distance_closed)

text \<open>
  The adaptive blend on both sides of the saturation threshold, for a pixel at RGB
  distance 0.3 and chroma distance 0.1 of the key and a variance of 0.4: distance alpha
  0.25, chroma alpha 0.75. The red key has saturation 1 and the result is
  0.3 * 0.25 + 0.7 * 0.75; the grey-blue key has saturation 0.1 and the weights swap.
\<close>

lemma sqrt_9_100: "sqrt (9 / 100) = 3 / 10"
  by (rule real_sqrt_unique) (simp_all add: power2_eq_square)

lemma sqrt_1_100: "sqrt (1 / 100) = 1 / 10"
  by (rule real_sqrt_unique) (simp_all add: power2_eq_square)

lemma example_adaptive_saturated:
  "calculate_distance_alpha (new_SimpleColorKeyerIop\<lparr>variance := 0.4\<rparr>)
     \<lparr>r = 1.2, g = 0.2, b = 0.1\<rparr> \<lparr>r = 1, g = 0, b = 0\<rparr> = Some 0.25 \<and>
   calculate_chroma_alpha (new_SimpleColorKeyerIop\<lparr>variance := 0.4\<rparr>)
     \<lparr>r = 1.2, g = 0.2, b = 0.1\<rparr> \<lparr>r = 1, g = 0, b = 0\<rparr> = Some 0.75 \<and>
   calculate_adaptive_alpha (new_SimpleColorKeyerIop\<lparr>variance := 0.4\<rparr>)
     \<lparr>r = 1.2, g = 0.2, b = 0.1\<rparr> \<lparr>r = 1, g = 0, b = 0\<rparr> = Some 0.6"
  by (simp add: adaptive_closed calculate_distance_alpha_Some distance_to_squares
      effective_tolerance_closed chroma_distance_closed new_SimpleColorKeyerIop_def
      power2_eq_square sqrt_9_100 sqrt_1_100)

lemma example_adaptive_unsaturated:
  "calculate_adaptive_alpha (new_SimpleColorKeyerIop\<lparr>variance := 0.4\<rparr>)
     \<lparr>r = 0.6, g = 0.6, b = 0.6\<rparr> \<lparr>r = 0.4, g = 0.4, b = 0.5\<rparr> = Some 0.4"
  by (simp add: adaptive_closed calculate_distance_alpha_Some distance_to_squares
      effective_tolerance_closed chroma_distance_closed new_SimpleColorKeyerIop_def
      power2_eq_square sqrt_9_100 sqrt_1_100)

section \<open>The claims\<close>

text \<open>
  C1. Distance method: the effective tolerance is the variance plus, for each of the six
  directions red, green, blue, yellow, magenta and cyan, the term range * 0.1 * match,
  where the matches of red, green and blue are the channels of the pixel and those of
  yellow, magenta and cyan are min(r,g), min(r,b) and min(g,b); a positive range adds
  and a negative range subtracts, with no interaction between directions. The sum is
  floored at 0.001, and the alpha returned is max(0, 1 - d / tolerance) for the
  Euclidean distance d between pixel and key.
\<close>

theorem distance_alpha_six_directions:
  "calculate_distance_alpha this pixel key =
     Some (max 0 (1 -
       sqrt ((r pixel - r key)\<^sup>2 + (g pixel - g key)\<^sup>2 + (b pixel - b key)\<^sup>2) /
       max 0.001 (variance this
         + range_red this * 0.1 * r pixel
         + range_green this * 0.1 * g pixel
         + range_blue this * 0.1 * b pixel
         + range_yellow this * 0.1 * min (r pixel) (g pixel)
         + range_magenta this * 0.1 * min (r pixel) (b pixel)
         + range_cyan this * 0.1 * min (g pixel) (b pixel))))"
  unfolding calculate_distance_alpha_Some distance_to_squares effective_tolerance_closed ..

text \<open>
  C2. Whatever the variance, zero and negative values included, the divisor of the
  distance method is at least 0.001, so its division is never by zero and the method
  always returns a number; the luma-weighted and the adaptive method reuse that
  division. The chroma method divides the chroma distance by the variance as it is,
  with no floor: at variance zero it divides by zero, and the adaptive method, which
  calls it, fails exactly when it does.
\<close>

theorem distance_floor_chroma_raw_variance:
  "0.001 \<le> effective_tolerance this pixel \<and>
   fdiv (distance_to pixel key) (effective_tolerance this pixel) =
     Some (distance_to pixel key / effective_tolerance this pixel) \<and>
   calculate_distance_alpha this pixel key =
     Some (max 0 (1 - distance_to pixel key / effective_tolerance this pixel)) \<and>
   calculate_luma_weighted_alpha this pixel key \<noteq> None \<and>
   (calculate_adaptive_alpha this pixel key = None) =
     (calculate_chroma_alpha this pixel key = None) \<and>
   calculate_chroma_alpha this pixel key =
     (if variance this = 0 then None
      else Some (max 0 (1 -
        sqrt (((r pixel - g pixel) - (r key - g key))\<^sup>2 +
              ((b pixel - g pixel) - (b key - g key))\<^sup>2) / variance this))) \<and>
   calculate_distance_alpha (this\<lparr>variance := 0\<rparr>) pixel key \<noteq> None \<and>
   calculate_chroma_alpha (this\<lparr>variance := 0\<rparr>) pixel key = None"
proof -
  have pos: "effective_tolerance this pixel \<noteq> 0"
    using effective_tolerance_pos [of this pixel] by simp
  have "fdiv (distance_to pixel key) (effective_tolerance this pixel) =
     Some (distance_to pixel key / effective_tolerance this pixel)"
    using pos by (simp add: fdiv_def)
  moreover have "calculate_luma_weighted_alpha this pixel key \<noteq> None"
    using luma_weighted_alpha_unit [of this pixel key] by auto
  moreover have "(calculate_adaptive_alpha this pixel key = None) =
     (calculate_chroma_alpha this pixel key = None)"
    unfolding adaptive_closed calculate_distance_alpha_Some by simp
  moreover have "calculate_distance_alpha (this\<lparr>variance := 0\<rparr>) pixel key \<noteq> None"
    unfolding calculate_distance_alpha_Some by simp
  moreover have "calculate_chroma_alpha (this\<lparr>variance := 0\<rparr>) pixel key = None"
    by (simp add: chroma_distance_closed)
  ultimately show ?thesis
    using effective_tolerance_floor [of this pixel]
      calculate_distance_alpha_Some [of this pixel key]
      chroma_distance_closed [of this pixel key]
    by blast
qed

text \<open>
  C3. For every pixel, every key and every setting of the knobs with a variance above
  zero, the raw alpha that \<^verbatim>\<open>calculate_alpha\<close> returns, before gain and inversion, is a
  number between 0 and 1. The statement covers every value of the method selector,
  hence each of the four methods distance, chroma, luma-weighted and adaptive.
\<close>

theorem calculate_alpha_unit_interval:
  assumes "0 < variance this"
  shows "\<exists>a. calculate_alpha this pixel key = Some a \<and> 0 \<le> a \<and> a \<le> 1"
  unfolding calculate_alpha_def
  using distance_alpha_unit [of this pixel key] chroma_alpha_unit [OF assms, of pixel key]
    luma_weighted_alpha_unit [of this pixel key] adaptive_alpha_unit [OF assms, of pixel key]
  by simp

theorem calculate_alpha_unit_interval_witness:
  "0 < variance (new_SimpleColorKeyerIop\<lparr>keying_method := 3\<rparr>) \<and>
   (\<exists>a. calculate_alpha (new_SimpleColorKeyerIop\<lparr>keying_method := 3\<rparr>)
           \<lparr>r = 0.6, g = 0.6, b = 0.6\<rparr> \<lparr>r = 0.4, g = 0.4, b = 0.5\<rparr> = Some a \<and>
         0 \<le> a \<and> a \<le> 1)"
  using calculate_alpha_unit_interval
    [of "new_SimpleColorKeyerIop\<lparr>keying_method := 3\<rparr>"
      "\<lparr>r = 0.6, g = 0.6, b = 0.6\<rparr>" "\<lparr>r = 0.4, g = 0.4, b = 0.5\<rparr>"]
  by (simp add: new_SimpleColorKeyerIop_def)

text \<open>
  C4. The post-processing multiplies by the gain, then clamps to the unit interval, then
  inverts (1 - value) when inversion is on, in this order. So a raw alpha of 1 under
  gain 2 with inversion gives 0, a raw alpha of 0.5 under gain 1 with inversion gives
  0.5, and the final alpha is never negative (nor above 1).
\<close>

theorem finalize_gain_clamp_invert:
  "finalize this raw_alpha =
     (if invert this then 1 - max 0 (min 1 (raw_alpha * gain this))
      else max 0 (min 1 (raw_alpha * gain this))) \<and>
   finalize (this\<lparr>gain := 2, invert := True\<rparr>) 1 = 0 \<and>
   finalize (this\<lparr>gain := 1, invert := True\<rparr>) 0.5 = 0.5 \<and>
   0 \<le> finalize this raw_alpha \<and> finalize this raw_alpha \<le> 1"
  by (simp add: finalize_def Let_def)

text \<open>
  C5. Luma-weighted method: the alpha returned is the alpha of the distance method, with
  its six directions, times the weight 1 - min(1, |luma_pixel - luma_key| / 0.5), where
  the luma of a colour is 0.299 * r + 0.587 * g + 0.114 * b. When the two lumas differ
  by 0.5 or more the weight is 0, and so is the alpha.
\<close>

theorem luma_weighted_is_distance_times_weight:
  "(\<exists>color_alpha. calculate_distance_alpha this pixel key = Some color_alpha \<and>
      calculate_luma_weighted_alpha this pixel key =
        Some (color_alpha *
          (1 - min 1 (\<bar>(0.299 * r pixel + 0.587 * g pixel + 0.114 * b pixel) -
                       (0.299 * r key + 0.587 * g key + 0.114 * b key)\<bar> / 0.5)))) \<and>
   (0.5 \<le> \<bar>(0.299 * r pixel + 0.587 * g pixel + 0.114 * b pixel) -
            (0.299 * r key + 0.587 * g key + 0.114 * b key)\<bar> \<longrightarrow>
      1 - min 1 (\<bar>(0.299 * r pixel + 0.587 * g pixel + 0.114 * b pixel) -
                   (0.299 * r key + 0.587 * g key + 0.114 * b key)\<bar> / 0.5) = 0 \<and>
      calculate_luma_weighted_alpha this pixel key = Some 0)"
  unfolding luma_weighted_closed calculate_distance_alpha_Some by simp

theorem luma_weighted_is_distance_times_weight_witness:
  "0.5 \<le> \<bar>(0.299 * r \<lparr>r = 1, g = 1, b = 1\<rparr> + 0.587 * g \<lparr>r = 1, g = 1, b = 1\<rparr>
            + 0.114 * b \<lparr>r = 1, g = 1, b = 1\<rparr>) -
           (0.299 * r \<lparr>r = 0, g = 0, b = 0\<rparr> + 0.587 * g \<lparr>r = 0, g = 0, b = 0\<rparr>
            + 0.114 * b \<lparr>r = 0, g = 0, b = 0\<rparr>)\<bar> \<and>
   calculate_luma_weighted_alpha (new_SimpleColorKeyerIop\<lparr>variance := 2\<rparr>)
     \<lparr>r = 1, g = 1, b = 1\<rparr> \<lparr>r = 0, g = 0, b = 0\<rparr> = Some 0"
  using luma_weighted_is_distance_times_weight
    [of "new_SimpleColorKeyerIop\<lparr>variance := 2\<rparr>"
      "\<lparr>r = 1, g = 1, b = 1\<rparr>" "\<lparr>r = 0, g = 0, b = 0\<rparr>"]
  by simp

text \<open>
  C6. Adaptive method: with the saturation of the key taken as max(r,g,b) - min(r,g,b)
  of the key, the alpha returned is 0.3 * distance_alpha + 0.7 * chroma_alpha when the
  saturation is strictly above 0.5, and 0.7 * distance_alpha + 0.3 * chroma_alpha
  otherwise, where distance_alpha and chroma_alpha are what the distance and the chroma
  method return for the same inputs. Where one of the two has divided by zero, so has
  the adaptive method.
\<close>

theorem adaptive_blend_by_key_saturation:
  "calculate_adaptive_alpha this pixel key =
     Option.bind (calculate_distance_alpha this pixel key) (\<lambda>distance_alpha.
       map_option (\<lambda>chroma_alpha.
           if max (r key) (max (g key) (b key)) - min (r key) (min (g key) (b key)) > 0.5
           then 0.3 * distance_alpha + 0.7 * chroma_alpha
           else 0.7 * distance_alpha + 0.3 * chroma_alpha)
         (calculate_chroma_alpha this pixel key))"
  by (simp add: calculate_adaptive_alpha_def Let_def split: option.split)

text \<open>
  C7. The chroma method does not read the six directional ranges: two settings of the
  knobs with the same variance give the same chroma alpha for every pixel and key,
  however their ranges for red, green, blue, yellow, magenta and cyan differ.
\<close>

theorem chroma_ignores_ranges:
  assumes "variance this = variance that"
  shows "calculate_chroma_alpha this pixel key = calculate_chroma_alpha that pixel key"
  using assms by (simp add: calculate_chroma_alpha_def)

theorem chroma_ignores_ranges_witness:
  "variance new_SimpleColorKeyerIop =
     variance (new_SimpleColorKeyerIop\<lparr>range_red := 3, range_green := - 3,
       range_blue := 1, range_yellow := 2, range_magenta := - 1, range_cyan := 0.5\<rparr>) \<and>
   calculate_chroma_alpha new_SimpleColorKeyerIop
     \<lparr>r = 0, g = 1, b = 0.1\<rparr> \<lparr>r = 0, g = 1, b = 0\<rparr> =
   calculate_chroma_alpha (new_SimpleColorKeyerIop\<lparr>range_red := 3, range_green := - 3,
       range_blue := 1, range_yellow := 2, range_magenta := - 1, range_cyan := 0.5\<rparr>)
     \<lparr>r = 0, g = 1, b = 0.1\<rparr> \<lparr>r = 0, g = 1, b = 0\<rparr>"
  using chroma_ignores_ranges
    [of new_SimpleColorKeyerIop
      "new_SimpleColorKeyerIop\<lparr>range_red := 3, range_green := - 3,
         range_blue := 1, range_yellow := 2, range_magenta := - 1, range_cyan := 0.5\<rparr>"
      "\<lparr>r = 0, g = 1, b = 0.1\<rparr>" "\<lparr>r = 0, g = 1, b = 0\<rparr>"]
  by simp

text \<open>
  C8. The distance method is monotone in the variance: with the pixel, the key and the
  six ranges fixed, a variance v2 at least as large as v1 gives a raw distance alpha at
  least as large.
\<close>

theorem distance_alpha_mono_variance:
  assumes "v1 \<le> v2"
  shows "\<exists>a1 a2.
     calculate_distance_alpha (this\<lparr>variance := v1\<rparr>) pixel key = Some a1 \<and>
     calculate_distance_alpha (this\<lparr>variance := v2\<rparr>) pixel key = Some a2 \<and>
     a1 \<le> a2"
proof -
  have "effective_tolerance (this\<lparr>variance := v1\<rparr>) pixel
      \<le> effective_tolerance (this\<lparr>variance := v2\<rparr>) pixel"
    unfolding effective_tolerance_closed using assms by simp
  then have
    "max 0 (1 - distance_to pixel key / effective_tolerance (this\<lparr>variance := v1\<rparr>) pixel)
      \<le> max 0 (1 - distance_to pixel key / effective_tolerance (this\<lparr>variance := v2\<rparr>) pixel)"
    using distance_to_nonneg [of pixel key]
      effective_tolerance_pos [of "this\<lparr>variance := v1\<rparr>" pixel]
    by (intro falloff_mono)
  then show ?thesis
    unfolding calculate_distance_alpha_Some by blast
qed

theorem distance_alpha_mono_variance_witness:
  "(0.3::real) \<le> 0.6 \<and>
   (\<exists>a1 a2.
     calculate_distance_alpha (new_SimpleColorKeyerIop\<lparr>variance := 0.3\<rparr>)
        \<lparr>r = 0, g = 1, b = 0.3\<rparr> \<lparr>r = 0, g = 1, b = 0\<rparr> = Some a1 \<and>
     calculate_distance_alpha (new_SimpleColorKeyerIop\<lparr>variance := 0.6\<rparr>)
        \<lparr>r = 0, g = 1, b = 0.3\<rparr> \<lparr>r = 0, g = 1, b = 0\<rparr> = Some a2 \<and>
     a1 \<le> a2)"
  using distance_alpha_mono_variance [of "0.3" "0.6" new_SimpleColorKeyerIop
      "\<lparr>r = 0, g = 1, b = 0.3\<rparr>" "\<lparr>r = 0, g = 1, b = 0\<rparr>"]
  by simp

text \<open>
  C9. The chroma method is invariant under an equal offset on the three channels of the
  pixel: for every pixel, key, setting of the knobs and number d, the pixel
  (r + d, g + d, b + d) has the chroma alpha of (r, g, b), since the offset cancels in
  u = r - g and v = b - g.
\<close>

theorem chroma_offset_invariant:
  "calculate_chroma_alpha this
     (pixel\<lparr>r := r pixel + d, g := g pixel + d, b := b pixel + d\<rparr>) key =
   calculate_chroma_alpha this pixel key"
  by (simp add: calculate_chroma_alpha_def)

text \<open>
  C10. With a method selector outside 0, 1, 2 and 3, \<^verbatim>\<open>calculate_alpha\<close> returns 0 for
  every pixel and key and fails in no way: no case of the switch matches and the local
  alpha keeps its initial 0. After gain, clamp and inversion the alpha written for the
  pixel is then 0, or 1 when inversion is on.
\<close>

theorem calculate_alpha_unknown_method:
  assumes "keying_method this \<notin> {0, 1, 2, 3}"
  shows "calculate_alpha this pixel key = Some 0 \<and>
         engine_alpha this pixel = Some (if invert this then 1 else 0)"
  using assms by (simp add: calculate_alpha_def engine_alpha_def finalize_def)

theorem calculate_alpha_unknown_method_witness:
  "keying_method (new_SimpleColorKeyerIop\<lparr>keying_method := 7, invert := True\<rparr>)
     \<notin> {0, 1, 2, 3} \<and>
   calculate_alpha (new_SimpleColorKeyerIop\<lparr>keying_method := 7, invert := True\<rparr>)
     \<lparr>r = 0, g = 1, b = 0\<rparr> \<lparr>r = 0, g = 1, b = 0\<rparr> = Some 0 \<and>
   engine_alpha (new_SimpleColorKeyerIop\<lparr>keying_method := 7, invert := True\<rparr>)
     \<lparr>r = 0, g = 1, b = 0\<rparr> = Some 1"
  using calculate_alpha_unknown_method
    [of "new_SimpleColorKeyerIop\<lparr>keying_method := 7, invert := True\<rparr>"
      "\<lparr>r = 0, g = 1, b = 0\<rparr>" "\<lparr>r = 0, g = 1, b = 0\<rparr>"]
  by simp

end
